theory Spec2Isabelle
  imports Main "HOL-Library.Word"
begin

section \<open>The response of the oak middleware framework (response.ts)\<close>

text \<open>
  The class \<open>Response\<close> of \<open>response.ts\<close> is embedded as a record of its private
  fields, its accessors and methods as functions on a world: the record together with
  the store of the \<open>Headers\<close> objects, which the response, its request and the payload
  handed to the server share by reference. A method that throws returns \<open>Inl\<close> of the
  error, together with the world as the throw leaves it.
\<close>

subsection \<open>JavaScript values\<close>

type_synonym byte = "8 word"

text \<open>
  The values a body of type \<open>any\<close> can hold. A number is its IEEE 754 binary64 bit
  pattern. An object is the list of the properties visible on it. A string is the list
  of its bytes in UTF-8; a surrogate code unit that is not half of a pair, which UTF-8
  leaves out, is written with the three bytes that the same scheme gives it (\<open>ED\<close>, then
  a byte from \<open>A0\<close> to \<open>BF\<close>, then one more).
\<close>

datatype js_value =
    JUndefined
  | JNull
  | JBoolean bool
  | JNumber "64 word"
  | JBigInt int
  | JString string
  | JSymbol string
  | JFunction
  | JUint8Array "byte list"
  | JArray "js_value list"
  | JObject "(string \<times> js_value) list"

text \<open>The operator \<open>typeof\<close>.\<close>

fun typeof :: "js_value \<Rightarrow> string" where
  "typeof JUndefined = ''undefined''"
| "typeof JNull = ''object''"
| "typeof (JBoolean b) = ''boolean''"
| "typeof (JNumber n) = ''number''"
| "typeof (JBigInt i) = ''bigint''"
| "typeof (JString s) = ''string''"
| "typeof (JSymbol d) = ''symbol''"
| "typeof JFunction = ''function''"
| "typeof (JUint8Array bs) = ''object''"
| "typeof (JArray vs) = ''object''"
| "typeof (JObject ps) = ''object''"

text \<open>
  The conversion to a boolean that \<open>&&\<close>, \<open>||\<close>, \<open>!\<close> and \<open>if\<close> apply: \<open>undefined\<close>,
  \<open>null\<close>, \<open>false\<close>, \<open>+0\<close>, \<open>-0\<close>, \<open>NaN\<close>, \<open>0n\<close> and the empty string are falsy.
  A binary64 is a zero when its low 63 bits are zero, a NaN when they exceed the bit
  pattern of infinity.
\<close>

fun truthy :: "js_value \<Rightarrow> bool" where
  "truthy JUndefined = False"
| "truthy JNull = False"
| "truthy (JBoolean b) = b"
| "truthy (JNumber n) = (take_bit 63 n \<noteq> 0 \<and> take_bit 63 n \<le> 0x7FF0000000000000)"
| "truthy (JBigInt i) = (i \<noteq> 0)"
| "truthy (JString s) = (s \<noteq> [])"
| "truthy (JSymbol d) = True"
| "truthy JFunction = True"
| "truthy (JUint8Array bs) = True"
| "truthy (JArray vs) = True"
| "truthy (JObject ps) = True"

text \<open>Truthiness of a \<open>string | undefined\<close> and of a number of the \<open>Status\<close> enum.\<close>

fun truthy_string :: "string option \<Rightarrow> bool" where
  "truthy_string None = False"
| "truthy_string (Some s) = (s \<noteq> [])"

fun truthy_status :: "int option \<Rightarrow> bool" where
  "truthy_status None = False"
| "truthy_status (Some s) = (s \<noteq> 0)"

datatype js_error =
    NotWritable
  | CouldNotConvert
  | InOperatorTypeError
  | HeadersTypeError
  | URIError
  | JSONTypeError

text \<open>
  \<open>NotWritable\<close> is \<open>Error("The response is not writable.")\<close>, \<open>CouldNotConvert\<close> is
  \<open>TypeError("Response body was set, but could not convert")\<close>, and
  \<open>InOperatorTypeError\<close> is the \<open>TypeError\<close> of the operator \<open>in\<close> at a right operand
  that is not an object, \<open>null\<close> included. The other three are thrown by the runtime:
  \<open>HeadersTypeError\<close> is the \<open>TypeError\<close> of \<open>Headers.append\<close> at a value that is no
  legal header value, \<open>URIError\<close> the error of \<open>encodeURI\<close> at a string with a lone
  surrogate, and \<open>JSONTypeError\<close> the \<open>TypeError\<close> of \<open>JSON.stringify\<close> at a value that
  holds a BigInt or refers to itself.
\<close>

text \<open>\<open>"read" in value\<close> and \<open>value.read\<close>. No array or typed array has a member \<open>read\<close>.\<close>

fun read_in :: "js_value \<Rightarrow> js_error + bool" where
  "read_in (JObject ps) = Inr (map_of ps ''read'' \<noteq> None)"
| "read_in (JUint8Array bs) = Inr False"
| "read_in (JArray vs) = Inr False"
| "read_in JFunction = Inr False"
| "read_in v = Inl InOperatorTypeError"

fun get_read :: "js_value \<Rightarrow> js_value" where
  "get_read (JObject ps) = (case map_of ps ''read'' of Some x \<Rightarrow> x | None \<Rightarrow> JUndefined)"
| "get_read v = JUndefined"

fun instanceof_Uint8Array :: "js_value \<Rightarrow> bool" where
  "instanceof_Uint8Array (JUint8Array bs) = True"
| "instanceof_Uint8Array v = False"

subsection \<open>Headers objects\<close>

text \<open>
  A \<open>Headers\<close> object of the runtime: the list of its entries in insertion order, the
  names in lower case, so that every lookup ignores the case of the name. The names
  that \<open>response.ts\<close> passes are the literals \<open>Content-Type\<close>, \<open>Content-Length\<close>,
  \<open>Location\<close> and \<open>Referrer\<close>, all legal header names: the model does not test the
  name.
\<close>

type_synonym Headers = "(string \<times> string) list"

text \<open>
  The letters \<open>A\<close> to \<open>Z\<close> are the codes 65 to 90, in which bit 5 (of value 32) is
  clear; setting it gives the lower-case letter.
\<close>

definition toLowerCase_char :: "char \<Rightarrow> char" where
  "toLowerCase_char c =
     (if 65 \<le> (of_char c :: nat) \<and> (of_char c :: nat) \<le> 90
      then (case c of Char b0 b1 b2 b3 b4 b5 b6 b7 \<Rightarrow> Char b0 b1 b2 b3 b4 True b6 b7)
      else c)"

definition toLowerCase :: "string \<Rightarrow> string" where
  "toLowerCase s = map toLowerCase_char s"

definition Headers_has :: "Headers \<Rightarrow> string \<Rightarrow> bool" where
  "Headers_has h name = (map_of h (toLowerCase name) \<noteq> None)"

text \<open>
  \<open>append\<close> first strips the value of leading and trailing HTTP white space (tab, line
  feed, carriage return, space), and throws a \<open>TypeError\<close> unless the rest is a legal
  header value: one with no NUL, line feed or carriage return in it and no code unit
  above 255. In UTF-8 the code units up to 255 are the bytes below \<open>80\<close> and the pairs
  led by \<open>C2\<close> or \<open>C3\<close>, so a code unit above 255 shows as a byte from \<open>C4\<close> on.
\<close>

definition http_whitespace :: "char \<Rightarrow> bool" where
  "http_whitespace c = (of_char c \<in> set [0x09, 0x0A, 0x0D, 0x20 :: nat])"

definition normalize_value :: "string \<Rightarrow> string" where
  "normalize_value v = rev (dropWhile http_whitespace (rev (dropWhile http_whitespace v)))"

definition is_header_value :: "string \<Rightarrow> bool" where
  "is_header_value v =
     list_all (\<lambda>c. of_char c \<notin> set [0x00, 0x0A, 0x0D :: nat] \<and> (of_char c :: nat) < 0xC4) v"

definition Headers_append :: "Headers \<Rightarrow> string \<Rightarrow> string \<Rightarrow> js_error + Headers" where
  "Headers_append h name v =
     (if is_header_value (normalize_value v)
      then Inr (h @ [(toLowerCase name, normalize_value v)])
      else Inl HeadersTypeError)"

fun replace_entry :: "string \<Rightarrow> string \<Rightarrow> Headers \<Rightarrow> Headers" where
  "replace_entry k v [] = []"
| "replace_entry k v (e # es) =
     (if fst e = k then (k, v) # filter (\<lambda>e'. fst e' \<noteq> k) es else e # replace_entry k v es)"

text \<open>
  \<open>set\<close> replaces the first entry of the name and removes the others, or adds an entry
  when there is none. \<open>response.ts\<close> passes it one value only, the result of
  \<open>encodeUrl\<close>, an escaped URL: \<open>set\<close> stores the value as it is given.
\<close>

definition Headers_set :: "Headers \<Rightarrow> string \<Rightarrow> string \<Rightarrow> Headers" where
  "Headers_set h name v =
     (if Headers_has h name then replace_entry (toLowerCase name) v h
      else h @ [(toLowerCase name, v)])"

fun join_values :: "string list \<Rightarrow> string" where
  "join_values [] = []"
| "join_values [v] = v"
| "join_values (v # vs) = v @ '', '' @ join_values vs"

definition Headers_get :: "Headers \<Rightarrow> string \<Rightarrow> string option" where
  "Headers_get h name =
     (case filter (\<lambda>e. fst e = toLowerCase name) h of
        [] \<Rightarrow> None
      | es \<Rightarrow> Some (join_values (map snd es)))"

subsection \<open>What response.ts imports\<close>

text \<open>
  The functions of \<open>deps.ts\<close> and \<open>util.ts\<close> are parameters of the model:
  \<open>contentType\<close> (its result a \<open>string | undefined\<close>), \<open>isHtml\<close>, \<open>isRedirectStatus\<close>
  and \<open>encodeUrl\<close>. So are three functions of the runtime: \<open>String\<close>, which
  \<open>response.ts\<close> applies to primitive values only, \<open>TextEncoder.encode\<close>, and
  \<open>JSON.stringify\<close>, which returns a text or \<open>undefined\<close>, or throws.
\<close>

record env =
  contentType :: "string \<Rightarrow> string option"
  isHtml :: "string \<Rightarrow> bool"
  isRedirectStatus :: "int \<Rightarrow> bool"
  encodeUrl :: "string \<Rightarrow> string"
  js_String :: "js_value \<Rightarrow> string"
  JSON_stringify :: "js_value \<Rightarrow> js_error + string option"
  encode :: "string \<Rightarrow> byte list"

text \<open>
  \<open>encodeURI\<close> of the runtime leaves the letters, the digits and the characters
  \<open>- _ . ! ~ * ' ( ) ; / ? : @ & = + $ , #\<close> as they are and writes every other
  character as its UTF-8 bytes, each as \<open>%\<close> and two upper-case hexadecimal digits. It
  throws a \<open>URIError\<close> when the string has a surrogate that is not half of a pair.
\<close>

definition uri_unescaped :: "char \<Rightarrow> bool" where
  "uri_unescaped c =
     ((48 \<le> (of_char c :: nat) \<and> (of_char c :: nat) \<le> 57) \<or>
      (65 \<le> (of_char c :: nat) \<and> (of_char c :: nat) \<le> 90) \<or>
      (97 \<le> (of_char c :: nat) \<and> (of_char c :: nat) \<le> 122) \<or>
      c \<in> set ''-_.!~*()'' \<or> c = CHR 0x27 \<or> c \<in> set '';/?:@&=+$,#'')"

definition hex_digit :: "nat \<Rightarrow> char" where
  "hex_digit n = ''0123456789ABCDEF'' ! (n mod 16)"

definition percent_encode :: "char \<Rightarrow> string" where
  "percent_encode c = [CHR ''%'', hex_digit (of_char c div 16), hex_digit (of_char c mod 16)]"

fun has_lone_surrogate :: "string \<Rightarrow> bool" where
  "has_lone_surrogate (a # b # s) =
     ((of_char a = (0xED :: nat) \<and> 0xA0 \<le> (of_char b :: nat) \<and> (of_char b :: nat) \<le> 0xBF) \<or>
      has_lone_surrogate (b # s))"
| "has_lone_surrogate s = False"

definition encodeURI :: "string \<Rightarrow> js_error + string" where
  "encodeURI s =
     (if has_lone_surrogate s then Inl URIError
      else Inr (concat (map (\<lambda>c. if uri_unescaped c then [c] else percent_encode c) s)))"

text \<open>
  Modelled from the spec: the members of the enum \<open>Status\<close> of \<open>deps.ts\<close> that
  \<open>response.ts\<close> names, the spec's 200-equivalent (OK), 404-equivalent (Not Found)
  and 302-equivalent (Found).
\<close>

definition Status_OK :: int where
  "Status_OK = 200"

definition Status_NotFound :: int where
  "Status_NotFound = 404"

definition Status_Found :: int where
  "Status_Found = 302"

subsection \<open>The state\<close>

type_synonym href = nat

text \<open>
  Of the request (\<open>request.ts\<close>) the response reads the headers and asks \<open>accepts\<close>,
  of whose result only the truthiness is used.
\<close>

record Request =
  req_headers :: href
  accepts :: "string \<Rightarrow> bool"

record ServerResponse =
  sr_status :: int
  sr_body :: js_value
  sr_headers :: href

record Response =
  priv_body :: js_value
  priv_headers :: href
  priv_request :: Request
  priv_serverResponse :: "ServerResponse option"
  priv_status :: "int option"
  priv_type :: "string option"
  priv_writable :: bool

record world =
  heap :: "href \<Rightarrow> Headers"
  resp :: Response

text \<open>
  The constructor: \<open>h\<close> is the address of the object that \<open>new Headers()\<close> allocates.
\<close>

definition new_Response :: "Request \<Rightarrow> href \<Rightarrow> (href \<Rightarrow> Headers) \<Rightarrow> world" where
  "new_Response request h hp =
     \<lparr> heap = hp(h := []),
       resp = \<lparr> priv_body = JUndefined, priv_headers = h, priv_request = request,
                priv_serverResponse = None, priv_status = None, priv_type = None,
                priv_writable = True \<rparr> \<rparr>"

subsection \<open>The accessors\<close>

definition BODY_TYPES :: "string list" where
  "BODY_TYPES = [''string'', ''number'', ''bigint'', ''boolean'', ''symbol'']"

definition isReader :: "js_value \<Rightarrow> js_error + bool" where
  "isReader v =
     (if typeof v = ''object'' then
        (case read_in v of
           Inl e \<Rightarrow> Inl e
         | Inr b \<Rightarrow> Inr (b \<and> typeof (get_read v) = ''function''))
      else Inr False)"

definition get_body :: "world \<Rightarrow> js_value" where
  "get_body w = priv_body (resp w)"

definition set_body :: "js_value \<Rightarrow> world \<Rightarrow> (js_error + unit) \<times> world" where
  "set_body v w =
     (if \<not> priv_writable (resp w) then (Inl NotWritable, w)
      else (Inr (), w\<lparr>resp := (resp w)\<lparr>priv_body := v\<rparr>\<rparr>))"

definition get_headers :: "world \<Rightarrow> href" where
  "get_headers w = priv_headers (resp w)"

definition set_headers :: "href \<Rightarrow> world \<Rightarrow> (js_error + unit) \<times> world" where
  "set_headers v w =
     (if \<not> priv_writable (resp w) then (Inl NotWritable, w)
      else (Inr (), w\<lparr>resp := (resp w)\<lparr>priv_headers := v\<rparr>\<rparr>))"

definition get_status :: "world \<Rightarrow> int" where
  "get_status w =
     (case priv_status (resp w) of
        Some s \<Rightarrow> if s \<noteq> 0 then s
                  else (let typeofbody = typeof (get_body w) in
                        if truthy (get_body w) \<and>
                           (typeofbody \<in> set BODY_TYPES \<or> typeofbody = ''object'')
                        then Status_OK else Status_NotFound)
      | None \<Rightarrow> (let typeofbody = typeof (get_body w) in
                 if truthy (get_body w) \<and>
                    (typeofbody \<in> set BODY_TYPES \<or> typeofbody = ''object'')
                 then Status_OK else Status_NotFound))"

definition set_status :: "int \<Rightarrow> world \<Rightarrow> (js_error + unit) \<times> world" where
  "set_status v w =
     (if \<not> priv_writable (resp w) then (Inl NotWritable, w)
      else (Inr (), w\<lparr>resp := (resp w)\<lparr>priv_status := Some v\<rparr>\<rparr>))"

definition get_type :: "world \<Rightarrow> string option" where
  "get_type w = priv_type (resp w)"

definition set_type :: "string option \<Rightarrow> world \<Rightarrow> (js_error + unit) \<times> world" where
  "set_type v w =
     (if \<not> priv_writable (resp w) then (Inl NotWritable, w)
      else (Inr (), w\<lparr>resp := (resp w)\<lparr>priv_type := v\<rparr>\<rparr>))"

definition get_writable :: "world \<Rightarrow> bool" where
  "get_writable w = priv_writable (resp w)"

subsection \<open>Body resolution and the content type\<close>

text \<open>\<open>this.type || d\<close>.\<close>

definition type_or :: "string option \<Rightarrow> string \<Rightarrow> string option" where
  "type_or t d = (if truthy_string t then t else Some d)"

text \<open>
  \<open>encode(input = "")\<close>: given \<open>undefined\<close>, \<open>TextEncoder.encode\<close> encodes the empty
  string, the default of its parameter.
\<close>

fun encode_input :: "string option \<Rightarrow> string" where
  "encode_input None = []"
| "encode_input (Some s) = s"

definition getBody :: "env \<Rightarrow> world \<Rightarrow> (js_error + js_value) \<times> world" where
  "getBody env w =
     (let typeofBody = typeof (get_body w) in
      if typeofBody \<in> set BODY_TYPES then
        (let bodyText = js_String env (get_body w);
             result = JUint8Array (encode env bodyText)
         in case set_type (type_or (get_type w)
                             (if isHtml env bodyText then ''html'' else ''text/plain'')) w of
              (Inl e, w') \<Rightarrow> (Inl e, w')
            | (Inr u, w') \<Rightarrow> (Inr result, w'))
      else
        (case (if instanceof_Uint8Array (get_body w) then Inr True
               else isReader (get_body w)) of
           Inl e \<Rightarrow> (Inl e, w)
         | Inr True \<Rightarrow> (Inr (get_body w), w)
         | Inr False \<Rightarrow>
             if truthy (get_body w) \<and> typeofBody = ''object'' then
               (case JSON_stringify env (get_body w) of
                  Inl e \<Rightarrow> (Inl e, w)
                | Inr text \<Rightarrow>
                    (let result = JUint8Array (encode env (encode_input text))
                     in case set_type (type_or (get_type w) ''json'') w of
                          (Inl e, w') \<Rightarrow> (Inl e, w')
                        | (Inr u, w') \<Rightarrow> (Inr result, w')))
             else if truthy (get_body w) then (Inl CouldNotConvert, w)
             else (Inr JUndefined, w)))"

definition setContentType :: "env \<Rightarrow> world \<Rightarrow> (js_error + unit) \<times> world" where
  "setContentType env w =
     (case get_type w of
        None \<Rightarrow> (Inr (), w)
      | Some t \<Rightarrow>
          if t \<noteq> [] then
            (case contentType env t of
               None \<Rightarrow> (Inr (), w)
             | Some contentTypeString \<Rightarrow>
                 if contentTypeString \<noteq> [] \<and>
                    \<not> Headers_has (heap w (get_headers w)) ''Content-Type''
                 then (case Headers_append (heap w (get_headers w)) ''Content-Type''
                              contentTypeString of
                         Inl e \<Rightarrow> (Inl e, w)
                       | Inr h \<Rightarrow> (Inr (), w\<lparr>heap := (heap w)(get_headers w := h)\<rparr>))
                 else (Inr (), w))
          else (Inr (), w))"

subsection \<open>redirect\<close>

text \<open>
  The argument \<open>url\<close> is a string, a \<open>URL\<close> object (given by the string that \<open>String\<close>
  makes of it) or the symbol \<open>REDIRECT_BACK\<close>; \<open>alt\<close> is a string or a \<open>URL\<close> object, and
  \<open>"/"\<close> when the caller gives none.
\<close>

datatype url_arg = Url_string string | Url_object string

datatype redirect_url = Url url_arg | REDIRECT_BACK

fun String_url :: "url_arg \<Rightarrow> string" where
  "String_url (Url_string s) = s"
| "String_url (Url_object href) = href"

text \<open>
  The value of \<open>url\<close> after the first statement of \<open>redirect\<close>: the referrer of the
  request or else \<open>String(alt)\<close> for \<open>REDIRECT_BACK\<close>, \<open>String(url)\<close> for an object,
  and \<open>url\<close> itself for a string.
\<close>

definition redirect_target :: "redirect_url \<Rightarrow> url_arg option \<Rightarrow> world \<Rightarrow> string" where
  "redirect_target url alt_arg w =
     (let alt = (case alt_arg of None \<Rightarrow> Url_string ''/'' | Some a \<Rightarrow> a) in
      case url of
        REDIRECT_BACK \<Rightarrow>
          (case Headers_get (heap w (req_headers (priv_request (resp w)))) ''Referrer'' of
             Some r \<Rightarrow> r
           | None \<Rightarrow> String_url alt)
      | Url (Url_object href) \<Rightarrow> String_url (Url_object href)
      | Url (Url_string s) \<Rightarrow> s)"

definition redirect ::
  "env \<Rightarrow> redirect_url \<Rightarrow> url_arg option \<Rightarrow> world \<Rightarrow> (js_error + unit) \<times> world" where
  "redirect env url alt_arg w =
     (let url1 = redirect_target url alt_arg w;
          w1 = w\<lparr>heap := (heap w)(get_headers w :=
                  Headers_set (heap w (get_headers w)) ''Location'' (encodeUrl env url1))\<rparr>
      in case (if get_status w1 = 0 \<or> \<not> isRedirectStatus env (get_status w1)
               then set_status Status_Found w1 else (Inr (), w1)) of
           (Inl e, w2) \<Rightarrow> (Inl e, w2)
         | (Inr u, w2) \<Rightarrow>
             if accepts (priv_request (resp w2)) ''html'' then
               (case encodeURI url1 of
                  Inl e \<Rightarrow> (Inl e, w2)
                | Inr url2 \<Rightarrow>
                    (case set_type (Some ''text/html; charset=utf-8'') w2 of
                       (Inl e, w3) \<Rightarrow> (Inl e, w3)
                     | (Inr u', w3) \<Rightarrow>
                         set_body (JString (''Redirecting to <a href='' @ [CHR 0x22] @ url2 @
                                            [CHR 0x22] @ ''>'' @ url2 @ ''</a>.'')) w3))
             else
               (case set_type (Some ''text/plain; charset=utf-8'') w2 of
                  (Inl e, w3) \<Rightarrow> (Inl e, w3)
                | (Inr u', w3) \<Rightarrow>
                    set_body (JString (''Redirecting to '' @ url1 @ ''.'')) w3))"

text \<open>
  The world after the first two statements of \<open>redirect\<close> on a writable response:
  \<open>Location\<close> is set, and the status is Found unless it was a redirect status.
\<close>

definition redirected :: "env \<Rightarrow> redirect_url \<Rightarrow> url_arg option \<Rightarrow> world \<Rightarrow> world" where
  "redirected env url alt_arg w =
     w\<lparr>heap := (heap w)(get_headers w :=
          Headers_set (heap w (get_headers w)) ''Location''
            (encodeUrl env (redirect_target url alt_arg w))),
       resp := (resp w)\<lparr>priv_status :=
          (if get_status w = 0 \<or> \<not> isRedirectStatus env (get_status w)
           then Some Status_Found else priv_status (resp w))\<rparr>\<rparr>"

subsection \<open>toServerResponse\<close>

definition toServerResponse :: "env \<Rightarrow> world \<Rightarrow> (js_error + ServerResponse) \<times> world" where
  "toServerResponse env w =
     (case priv_serverResponse (resp w) of
        Some sr \<Rightarrow> (Inr sr, w)
      | None \<Rightarrow>
          (case getBody env w of
             (Inl e, w1) \<Rightarrow> (Inl e, w1)
           | (Inr body, w1) \<Rightarrow>
               (case setContentType env w1 of
                  (Inl e, w2) \<Rightarrow> (Inl e, w2)
                | (Inr u, w2) \<Rightarrow>
                    (let headers = get_headers w2 in
                     case (if \<not> (truthy body \<or>
                                  Headers_has (heap w2 headers) ''Content-Type'' \<or>
                                  Headers_has (heap w2 headers) ''Content-Length'')
                           then (case Headers_append (heap w2 headers) ''Content-Length'' ''0'' of
                                   Inl e \<Rightarrow> Inl e
                                 | Inr h \<Rightarrow> Inr (w2\<lparr>heap := (heap w2)(headers := h)\<rparr>))
                           else Inr w2) of
                       Inl e \<Rightarrow> (Inl e, w2)
                     | Inr w3 \<Rightarrow>
                         (let w4 = w3\<lparr>resp := (resp w3)\<lparr>priv_writable := False\<rparr>\<rparr>;
                              sr = \<lparr> sr_status = (case priv_status (resp w4) of
                                                     Some s \<Rightarrow> s
                                                   | None \<Rightarrow> if truthy body then Status_OK
                                                              else Status_NotFound),
                                     sr_body = body,
                                     sr_headers = headers \<rparr>
                          in (Inr sr,
                              w4\<lparr>resp := (resp w4)\<lparr>priv_serverResponse := Some sr\<rparr>\<rparr>))))))"

subsection \<open>The life of a response\<close>

text \<open>
  What code holding the response can do with it: assign to one of its four properties,
  call one of its two methods, or change a \<open>Headers\<close> object in place (the getter
  \<open>headers\<close> hands out the object itself). \<open>perform\<close> gives the world after the call,
  whether it returned or threw.
\<close>

datatype call =
    Set_body js_value
  | Set_headers href
  | Set_status int
  | Set_type "string option"
  | Redirect redirect_url "url_arg option"
  | ToServerResponse
  | Mutate_headers href Headers

fun perform :: "env \<Rightarrow> call \<Rightarrow> world \<Rightarrow> world" where
  "perform env (Set_body v) w = snd (set_body v w)"
| "perform env (Set_headers v) w = snd (set_headers v w)"
| "perform env (Set_status v) w = snd (set_status v w)"
| "perform env (Set_type v) w = snd (set_type v w)"
| "perform env (Redirect url alt_arg) w = snd (redirect env url alt_arg w)"
| "perform env ToServerResponse w = snd (toServerResponse env w)"
| "perform env (Mutate_headers a h) w = w\<lparr>heap := (heap w)(a := h)\<rparr>"

fun perform_all :: "env \<Rightarrow> call list \<Rightarrow> world \<Rightarrow> world" where
  "perform_all env [] w = w"
| "perform_all env (c # cs) w = perform_all env cs (perform env c w)"

text \<open>
  The worlds a response can be in: the one its constructor leaves, the new \<open>Headers\<close>
  object at an address other than that of the request's headers, and every world a
  call leads to from there.
\<close>

inductive reachable :: "env \<Rightarrow> world \<Rightarrow> bool" for env :: env where
  constructed: "h \<noteq> req_headers request \<Longrightarrow> reachable env (new_Response request h hp)"
| called: "reachable env w \<Longrightarrow> reachable env (perform env c w)"

text \<open>
  A body that \<open>getBody\<close> refuses: truthy, and neither of a primitive type, nor a byte
  array, nor a reader, nor of type object.
\<close>

definition unconvertible :: "js_value \<Rightarrow> bool" where
  "unconvertible v =
     (truthy v \<and> typeof v \<notin> set BODY_TYPES \<and> \<not> instanceof_Uint8Array v \<and>
      isReader v = Inr False \<and> typeof v \<noteq> ''object'')"

text \<open>
  The invariant of the class: the response is writable exactly as long as no payload
  is stored, and a stored payload holds the headers object of the response.
\<close>

definition response_inv :: "world \<Rightarrow> bool" where
  "response_inv w =
     (case priv_serverResponse (resp w) of
        None \<Rightarrow> priv_writable (resp w)
      | Some sr \<Rightarrow> \<not> priv_writable (resp w) \<and> sr_headers sr = priv_headers (resp w) \<and>
                   \<not> unconvertible (priv_body (resp w)))"

subsection \<open>Worked examples\<close>

text \<open>
  An instance of the parameters, for the examples. Its \<open>String\<close> and \<open>JSON.stringify\<close>
  follow the runtime on the values without numbers: the decimal text of a binary64 is
  not computed here, and a number other than NaN and the infinities is written as \<open>0\<close>.
  \<open>JSON.stringify\<close> throws on a value that holds a BigInt, leaves out the properties
  whose value is \<open>undefined\<close>, a function or a symbol, and writes such an element of an
  array as \<open>null\<close>.
\<close>

fun decimal :: "nat \<Rightarrow> string" where
  "decimal n =
     (if n < 10 then [''0123456789'' ! n] else decimal (n div 10) @ [''0123456789'' ! (n mod 10)])"

definition is_NaN :: "64 word \<Rightarrow> bool" where
  "is_NaN n = (0x7FF0000000000000 < take_bit 63 n)"

definition is_Infinity :: "64 word \<Rightarrow> bool" where
  "is_Infinity n = (take_bit 63 n = 0x7FF0000000000000)"

fun example_String :: "js_value \<Rightarrow> string" where
  "example_String (JString s) = s"
| "example_String (JBoolean b) = (if b then ''true'' else ''false'')"
| "example_String (JBigInt i) = (if i < 0 then ''-'' @ decimal (nat (- i)) else decimal (nat i))"
| "example_String (JSymbol d) = ''Symbol('' @ d @ '')''"
| "example_String (JNumber n) =
     (if is_NaN n then ''NaN''
      else if is_Infinity n then (if bit n 63 then ''-Infinity'' else ''Infinity'')
      else ''0'')"
| "example_String JUndefined = ''undefined''"
| "example_String JNull = ''null''"
| "example_String v = ''[object Object]''"

fun holds_BigInt :: "js_value \<Rightarrow> bool" where
  "holds_BigInt (JBigInt i) = True"
| "holds_BigInt (JArray vs) = list_ex holds_BigInt vs"
| "holds_BigInt (JObject ps) = list_ex (\<lambda>p. holds_BigInt (snd p)) ps"
| "holds_BigInt v = False"

fun left_out :: "js_value \<Rightarrow> bool" where
  "left_out JUndefined = True"
| "left_out JFunction = True"
| "left_out (JSymbol d) = True"
| "left_out v = False"

definition json_char :: "char \<Rightarrow> string" where
  "json_char c =
     (if c = CHR 0x22 then [CHR 0x5C, CHR 0x22]
      else if c = CHR 0x5C then [CHR 0x5C, CHR 0x5C]
      else if c = CHR 0x08 then [CHR 0x5C, CHR ''b'']
      else if c = CHR 0x09 then [CHR 0x5C, CHR ''t'']
      else if c = CHR 0x0A then [CHR 0x5C, CHR ''n'']
      else if c = CHR 0x0C then [CHR 0x5C, CHR ''f'']
      else if c = CHR 0x0D then [CHR 0x5C, CHR ''r'']
      else if (of_char c :: nat) < 32
        then [CHR 0x5C, CHR ''u'', CHR ''0'', CHR ''0'',
              ''0123456789abcdef'' ! (of_char c div 16), ''0123456789abcdef'' ! (of_char c mod 16)]
      else [c])"

definition json_quote :: "string \<Rightarrow> string" where
  "json_quote s = [CHR 0x22] @ concat (map json_char s) @ [CHR 0x22]"

fun join_commas :: "string list \<Rightarrow> string" where
  "join_commas [] = []"
| "join_commas [v] = v"
| "join_commas (v # vs) = v @ '','' @ join_commas vs"

fun json_text :: "js_value \<Rightarrow> string" where
  "json_text JNull = ''null''"
| "json_text (JBoolean b) = (if b then ''true'' else ''false'')"
| "json_text (JString s) = json_quote s"
| "json_text (JNumber n) = (if is_NaN n \<or> is_Infinity n then ''null'' else ''0'')"
| "json_text (JArray vs) =
     ''['' @ join_commas (map (\<lambda>v. if left_out v then ''null'' else json_text v) vs) @ '']''"
| "json_text (JObject ps) =
     ''{'' @ join_commas (map (\<lambda>p. json_quote (fst p) @ '':'' @ json_text (snd p))
                           (filter (\<lambda>p. \<not> left_out (snd p)) ps)) @ ''}''"
| "json_text (JUint8Array bs) =
     ''{'' @ join_commas (map (\<lambda>(i, b). json_quote (decimal i) @ '':'' @ decimal (unat b))
                           (enumerate 0 bs)) @ ''}''"
| "json_text v = []"

definition example_JSON_stringify :: "js_value \<Rightarrow> js_error + string option" where
  "example_JSON_stringify v =
     (if holds_BigInt v then Inl JSONTypeError
      else if left_out v then Inr None
      else Inr (Some (json_text v)))"

text \<open>
  \<open>contentType\<close> takes a type with a slash in it for a media type and looks up any
  other in a table; \<open>isHtml\<close> looks for one of the tags \<open><!doctype\<close>, \<open><html\<close>, \<open><body\<close>
  after leading white space, in either case; \<open>encodeUrl\<close> escapes as \<open>encodeURI\<close> does.
\<close>

definition example_contentType :: "string \<Rightarrow> string option" where
  "example_contentType t =
     (if CHR ''/'' \<in> set t then Some t
      else if t = ''json'' then Some ''application/json; charset=utf-8''
      else if t = ''html'' then Some ''text/html; charset=utf-8''
      else if t = ''txt'' then Some ''text/plain; charset=utf-8''
      else None)"

definition example_isHtml :: "string \<Rightarrow> bool" where
  "example_isHtml s =
     (let t = toLowerCase (dropWhile (\<lambda>c. of_char c \<in> set [0x09, 0x0A, 0x0B, 0x0C, 0x0D, 0x20 :: nat]) s)
      in take 9 t = ''<!doctype'' \<or> take 5 t = ''<html'' \<or> take 5 t = ''<body'')"

definition example_env :: env where
  "example_env =
     \<lparr> contentType = example_contentType,
       isHtml = example_isHtml,
       isRedirectStatus = (\<lambda>s. s \<in> set [300, 301, 302, 303, 305, 307, 308]),
       encodeUrl = (\<lambda>s. concat (map (\<lambda>c. if uri_unescaped c then [c] else percent_encode c) s)),
       js_String = example_String,
       JSON_stringify = example_JSON_stringify,
       encode = map of_char \<rparr>"

text \<open>
  The responses the examples run on: a new response, whose request accepts \<open>html\<close>;
  the same after \<open>toServerResponse\<close>; one finalized with the status 301; responses
  whose body is a function, the string of \<open>examples/app.ts\<close>, a book object as in
  \<open>examples/app.ts\<close>, and an object that holds a BigInt; the book with the type set to
  the empty string, the string with a type that has a line feed in it, and a response
  with the type \<open>json\<close> and no body. The last constant is a string of one lone
  surrogate, U+D800.
\<close>

definition example_request :: Request where
  "example_request = \<lparr> req_headers = 1, accepts = (\<lambda>t. t = ''html'') \<rparr>"

definition example_world :: world where
  "example_world = new_Response example_request 0 (\<lambda>a. [])"

definition finalized_world :: world where
  "finalized_world = snd (toServerResponse example_env example_world)"

definition moved_world :: world where
  "moved_world = perform_all example_env [Set_status 301, ToServerResponse] example_world"

definition function_body_world :: world where
  "function_body_world = perform example_env (Set_body JFunction) example_world"

definition hello_world :: world where
  "hello_world = perform example_env (Set_body (JString ''Hello world!'')) example_world"

definition book_world :: world where
  "book_world =
     perform example_env
       (Set_body (JObject [(''id'', JString ''1''), (''author'', JString ''Chinese'')]))
       example_world"

definition bigint_world :: world where
  "bigint_world = perform example_env (Set_body (JObject [(''a'', JBigInt 1)])) example_world"

definition empty_type_world :: world where
  "empty_type_world = perform example_env (Set_type (Some '''')) book_world"

definition illegal_type_world :: world where
  "illegal_type_world =
     perform example_env (Set_type (Some (''a/b; charset=x'' @ [CHR 0x0A] @ ''y''))) hello_world"

definition json_type_world :: world where
  "json_type_world = perform example_env (Set_type (Some ''json'')) example_world"

definition lone_surrogate :: string where
  "lone_surrogate = [CHR 0xED, CHR 0xA0, CHR 0x80]"

section \<open>Properties\<close>

subsection \<open>Headers and encodeURI\<close>

lemma filter_replace_entry:
  "filter (\<lambda>e. fst e = k) (replace_entry k v h) = (if map_of h k = None then [] else [(k, v)])"
  by (induction h) auto

lemma Headers_get_set: "Headers_get (Headers_set h name v) name = Some v"
proof (cases "Headers_has h name")
  case True
  then show ?thesis
    by (simp add: Headers_get_def Headers_set_def Headers_has_def filter_replace_entry)
next
  case False
  then have "filter (\<lambda>e. fst e = toLowerCase name) h = []"
    by (force simp: Headers_has_def map_of_eq_None_iff filter_empty_conv)
  with False show ?thesis
    by (simp add: Headers_get_def Headers_set_def)
qed

lemma Headers_append_zero:
  "Headers_append h ''Content-Length'' ''0'' = Inr (h @ [(''content-length'', ''0'')])"
  by (simp add: Headers_append_def normalize_value_def http_whitespace_def is_header_value_def
      toLowerCase_def toLowerCase_char_def)

lemma Headers_append_error: "Headers_append h name v = Inl e \<Longrightarrow> e = HeadersTypeError"
  by (simp add: Headers_append_def split: if_splits)

lemma encodeURI_error: "encodeURI s = Inl e \<longleftrightarrow> has_lone_surrogate s \<and> e = URIError"
  by (auto simp: encodeURI_def)

lemma encodeURI_slash: "encodeURI ''/'' = Inr ''/''"
  by (simp add: encodeURI_def uri_unescaped_def)

subsection \<open>What each operation leaves alone\<close>

lemmas setter_defs = set_body_def set_headers_def set_status_def set_type_def

lemma getBody_frame:
  assumes "getBody env w = (r, w')"
  shows "heap w' = heap w" and "priv_body (resp w') = priv_body (resp w)"
    and "priv_headers (resp w') = priv_headers (resp w)"
    and "priv_request (resp w') = priv_request (resp w)"
    and "priv_serverResponse (resp w') = priv_serverResponse (resp w)"
    and "priv_status (resp w') = priv_status (resp w)"
    and "priv_writable (resp w') = priv_writable (resp w)"
  using assms
  by (auto simp: getBody_def Let_def set_type_def get_body_def get_type_def
      split: if_splits sum.splits bool.splits)

lemma getBody_convertible:
  assumes "getBody env w = (Inr b, w')"
  shows "\<not> unconvertible (priv_body (resp w))"
  using assms
  by (auto simp: getBody_def Let_def set_type_def get_body_def get_type_def unconvertible_def
      split: if_splits sum.splits bool.splits)

lemma getBody_unconvertible:
  assumes "unconvertible (priv_body (resp w))"
  shows "getBody env w = (Inl CouldNotConvert, w)"
  using assms
  by (auto simp: getBody_def Let_def get_body_def unconvertible_def)

lemma getBody_result:
  assumes "getBody env w = (Inr b, w1)"
  shows "truthy b \<longleftrightarrow> b \<noteq> JUndefined"
proof -
  define v where "v = priv_body (resp w)"
  show ?thesis
    using assms unfolding getBody_def get_body_def v_def [symmetric]
    by (cases v)
       (auto simp: Let_def set_type_def isReader_def BODY_TYPES_def
        split: if_splits sum.splits bool.splits prod.splits)
qed

lemma getBody_absent:
  assumes "getBody env w = (Inr JUndefined, w1)"
  shows "w1 = w" and "get_body w = JUndefined"
proof -
  define v where "v = priv_body (resp w)"
  show "w1 = w"
    using assms unfolding getBody_def get_body_def v_def [symmetric]
    by (cases v)
       (auto simp: Let_def set_type_def isReader_def BODY_TYPES_def
        split: if_splits sum.splits bool.splits prod.splits)
  have "v = JUndefined"
    using assms unfolding getBody_def get_body_def v_def [symmetric]
    by (cases v)
       (auto simp: Let_def set_type_def isReader_def BODY_TYPES_def
        split: if_splits sum.splits bool.splits prod.splits)
  then show "get_body w = JUndefined"
    by (simp add: v_def get_body_def)
qed

lemma getBody_primitive:
  assumes "priv_writable (resp w)" and "typeof (get_body w) \<in> set BODY_TYPES"
  shows "getBody env w =
     (Inr (JUint8Array (encode env (js_String env (get_body w)))),
      w\<lparr>resp := (resp w)\<lparr>priv_type :=
           type_or (get_type w)
             (if isHtml env (js_String env (get_body w)) then ''html'' else ''text/plain'')\<rparr>\<rparr>)"
  using assms by (simp add: getBody_def Let_def set_type_def)

lemma getBody_structured:
  assumes "priv_writable (resp w)" and "truthy (get_body w)"
    and "typeof (get_body w) = ''object''" and "\<not> instanceof_Uint8Array (get_body w)"
    and "isReader (get_body w) = Inr False"
  shows "getBody env w =
     (case JSON_stringify env (get_body w) of
        Inl e \<Rightarrow> (Inl e, w)
      | Inr text \<Rightarrow>
          (Inr (JUint8Array (encode env (encode_input text))),
           w\<lparr>resp := (resp w)\<lparr>priv_type := type_or (get_type w) ''json''\<rparr>\<rparr>))"
  using assms by (simp add: getBody_def Let_def set_type_def BODY_TYPES_def split: sum.splits)

lemma setContentType_resp: "resp (snd (setContentType env w)) = resp w"
  by (simp add: setContentType_def split: option.splits sum.splits)

lemma setContentType_headers: "get_headers (snd (setContentType env w)) = get_headers w"
  by (simp add: get_headers_def setContentType_resp)

lemma setContentType_throws:
  assumes "fst (setContentType env w) = Inl e"
  shows "snd (setContentType env w) = w" and "e = HeadersTypeError"
  using assms
  by (auto simp: setContentType_def split: option.splits sum.splits if_splits
      dest: Headers_append_error)

lemma setContentType_unset:
  "\<not> truthy_string (get_type w) \<Longrightarrow> setContentType env w = (Inr (), w)"
  by (cases "get_type w") (simp_all add: setContentType_def)

lemma get_status_heap: "get_status (w\<lparr>heap := hp\<rparr>) = get_status w"
  by (simp add: get_status_def get_body_def split: option.splits)

lemma get_status_nonzero: "get_status w \<noteq> 0"
  by (simp add: get_status_def Let_def Status_OK_def Status_NotFound_def split: option.splits)

lemma get_status_unset:
  assumes "priv_status (resp w) = None"
  shows "get_status w =
     (if truthy (get_body w) \<and>
         (typeof (get_body w) \<in> set BODY_TYPES \<or> typeof (get_body w) = ''object'')
      then Status_OK else Status_NotFound)"
  using assms by (simp add: get_status_def Let_def)

subsection \<open>toServerResponse, first and later calls\<close>

lemma toServerResponse_memo:
  "priv_serverResponse (resp w) = Some sr \<Longrightarrow> toServerResponse env w = (Inr sr, w)"
  by (simp add: toServerResponse_def)

lemma toServerResponse_stores:
  assumes "toServerResponse env w = (Inr sr, w')"
  shows "priv_serverResponse (resp w') = Some sr"
  using assms
  by (auto simp: toServerResponse_def Let_def split: option.splits prod.splits sum.splits if_splits)

lemma toServerResponse_first_throws:
  assumes "priv_serverResponse (resp w) = None" and "getBody env w = (Inr b, w1)"
    and "fst (setContentType env w1) = Inl e"
  shows "toServerResponse env w = (Inl e, w1)"
proof -
  have "setContentType env w1 = (Inl e, w1)"
    using assms(3) setContentType_throws(1) [OF assms(3)] by (simp add: prod_eq_iff)
  with assms(1,2) show ?thesis
    by (simp add: toServerResponse_def)
qed

lemma toServerResponse_first:
  assumes "priv_serverResponse (resp w) = None" and "getBody env w = (Inr b, w1)"
    and "setContentType env w1 = (Inr u, w2)"
  shows "toServerResponse env w =
     (let headers = get_headers w;
          w3 = (if \<not> (truthy b \<or> Headers_has (heap w2 headers) ''Content-Type'' \<or>
                        Headers_has (heap w2 headers) ''Content-Length'')
                then w2\<lparr>heap := (heap w2)(headers :=
                         heap w2 headers @ [(''content-length'', ''0'')])\<rparr>
                else w2);
          sr = \<lparr> sr_status = (case priv_status (resp w) of
                                 Some s \<Rightarrow> s
                               | None \<Rightarrow> if truthy b then Status_OK else Status_NotFound),
                 sr_body = b, sr_headers = headers \<rparr>
      in (Inr sr, w3\<lparr>resp := (resp w1)\<lparr>priv_writable := False,
                                          priv_serverResponse := Some sr\<rparr>\<rparr>))"
proof -
  have r: "resp w2 = resp w1"
    using setContentType_resp [of env w1] assms(3) by simp
  show ?thesis
    using assms getBody_frame [OF assms(2)]
    by (simp add: toServerResponse_def Let_def r get_headers_def Headers_append_zero)
qed

subsection \<open>redirect, on a writable and on a finalized response\<close>

lemma redirect_writable_plain:
  assumes "priv_writable (resp w)" and "\<not> accepts (priv_request (resp w)) ''html''"
  shows "redirect env url alt_arg w =
     (Inr (),
      (redirected env url alt_arg w)\<lparr>resp := (resp (redirected env url alt_arg w))\<lparr>
         priv_type := Some ''text/plain; charset=utf-8'',
         priv_body := JString (''Redirecting to '' @ redirect_target url alt_arg w @ ''.'')\<rparr>\<rparr>)"
  using assms
  by (simp add: redirect_def redirected_def Let_def setter_defs get_status_heap get_headers_def
      get_status_nonzero)

lemma redirect_writable_html:
  assumes "priv_writable (resp w)" and "accepts (priv_request (resp w)) ''html''"
    and "encodeURI (redirect_target url alt_arg w) = Inr url2"
  shows "redirect env url alt_arg w =
     (Inr (),
      (redirected env url alt_arg w)\<lparr>resp := (resp (redirected env url alt_arg w))\<lparr>
         priv_type := Some ''text/html; charset=utf-8'',
         priv_body := JString (''Redirecting to <a href='' @ [CHR 0x22] @ url2 @ [CHR 0x22] @
                                ''>'' @ url2 @ ''</a>.'')\<rparr>\<rparr>)"
  using assms
  by (simp add: redirect_def redirected_def Let_def setter_defs get_status_heap get_headers_def
      get_status_nonzero)

lemma redirect_writable_throws:
  assumes "priv_writable (resp w)" and "accepts (priv_request (resp w)) ''html''"
    and "encodeURI (redirect_target url alt_arg w) = Inl e"
  shows "redirect env url alt_arg w = (Inl e, redirected env url alt_arg w)"
  using assms
  by (simp add: redirect_def redirected_def Let_def setter_defs get_status_heap get_headers_def
      get_status_nonzero)

lemma redirect_not_writable:
  assumes "\<not> priv_writable (resp w)"
  shows "redirect env url alt_arg w =
     (Inl (if isRedirectStatus env (get_status w) \<and> accepts (priv_request (resp w)) ''html'' \<and>
              has_lone_surrogate (redirect_target url alt_arg w)
           then URIError else NotWritable),
      w\<lparr>heap := (heap w)(get_headers w :=
            Headers_set (heap w (get_headers w)) ''Location''
              (encodeUrl env (redirect_target url alt_arg w)))\<rparr>)"
  using assms
  by (simp add: redirect_def Let_def setter_defs get_status_heap get_status_nonzero encodeURI_def)

subsection \<open>The stored payload is never replaced\<close>

lemma setter_serverResponse:
  "priv_serverResponse (resp (snd (set_body v w))) = priv_serverResponse (resp w)"
  "priv_serverResponse (resp (snd (set_headers a w))) = priv_serverResponse (resp w)"
  "priv_serverResponse (resp (snd (set_status s w))) = priv_serverResponse (resp w)"
  "priv_serverResponse (resp (snd (set_type t w))) = priv_serverResponse (resp w)"
  by (simp_all add: setter_defs)

lemma redirect_serverResponse:
  "priv_serverResponse (resp (snd (redirect env url alt_arg w))) = priv_serverResponse (resp w)"
  by (simp add: redirect_def Let_def setter_defs split: prod.splits sum.splits)

lemma perform_keeps_serverResponse:
  assumes "priv_serverResponse (resp w) = Some sr"
  shows "priv_serverResponse (resp (perform env c w)) = Some sr"
  using assms
  by (cases c) (simp_all add: setter_serverResponse redirect_serverResponse toServerResponse_memo)

lemma perform_all_keeps_serverResponse:
  assumes "priv_serverResponse (resp w) = Some sr"
  shows "priv_serverResponse (resp (perform_all env cs w)) = Some sr"
  using assms
  by (induction cs arbitrary: w) (simp_all add: perform_keeps_serverResponse)

subsection \<open>The invariant holds in every reachable world\<close>

lemma setter_inv:
  assumes "response_inv w"
  shows "response_inv (snd (set_body v w))" and "response_inv (snd (set_headers a w))"
    and "response_inv (snd (set_status s w))" and "response_inv (snd (set_type t w))"
  using assms
  by (auto simp: response_inv_def setter_defs split: option.splits)

lemma heap_update_inv: "response_inv (w\<lparr>heap := hp\<rparr>) = response_inv w"
  by (simp add: response_inv_def split: option.splits)

lemma redirect_inv:
  assumes "response_inv w"
  shows "response_inv (snd (redirect env url alt_arg w))"
  using assms
  by (auto simp: redirect_def Let_def response_inv_def setter_defs
      split: option.splits prod.splits sum.splits if_splits)

lemma toServerResponse_inv:
  assumes "response_inv w"
  shows "response_inv (snd (toServerResponse env w))"
proof (cases "priv_serverResponse (resp w)")
  case (Some sr)
  with assms show ?thesis by (simp add: toServerResponse_memo)
next
  case None
  obtain r w1 where g: "getBody env w = (r, w1)" by (cases "getBody env w")
  note fr = getBody_frame [OF g]
  have i1: "response_inv w1"
    using assms None fr by (simp add: response_inv_def)
  show ?thesis
  proof (cases r)
    case (Inl e)
    with None g i1 show ?thesis
      by (simp add: toServerResponse_def)
  next
    case (Inr b)
    with g have c: "\<not> unconvertible (priv_body (resp w))" by (simp add: getBody_convertible)
    obtain r2 w2 where s: "setContentType env w1 = (r2, w2)" by (cases "setContentType env w1")
    show ?thesis
    proof (cases r2)
      case (Inl e)
      with s have "fst (setContentType env w1) = Inl e" by simp
      with None g Inr i1 show ?thesis
        by (simp add: toServerResponse_first_throws)
    next
      case (Inr u)
      with None g \<open>r = Inr b\<close> s c fr show ?thesis
        by (simp add: toServerResponse_first Let_def response_inv_def get_headers_def)
    qed
  qed
qed

lemma perform_inv: "response_inv w \<Longrightarrow> response_inv (perform env c w)"
  by (cases c) (simp_all add: setter_inv redirect_inv toServerResponse_inv heap_update_inv)

lemma reachable_inv: "reachable env w \<Longrightarrow> response_inv w"
  by (induction rule: reachable.induct)
     (simp_all add: perform_inv, simp add: response_inv_def new_Response_def)

lemma reachable_perform_all:
  "reachable env w \<Longrightarrow> reachable env (perform_all env cs w)"
  by (induction cs arbitrary: w) (simp_all add: reachable.called)

lemma reachable_writable:
  assumes "reachable env w" and "priv_writable (resp w)"
  shows "priv_serverResponse (resp w) = None"
  using reachable_inv [OF assms(1)] assms(2)
  by (simp add: response_inv_def split: option.splits)

lemma reachable_finalized:
  assumes "reachable env w" and "priv_serverResponse (resp w) = Some sr"
  shows "\<not> priv_writable (resp w)" and "sr_headers sr = priv_headers (resp w)"
    and "\<not> unconvertible (priv_body (resp w))"
  using reachable_inv [OF assms(1)] assms(2)
  by (simp_all add: response_inv_def)

subsection \<open>The worked examples\<close>

lemmas model_defs = new_Response_def set_body_def set_headers_def set_status_def set_type_def
  get_body_def get_headers_def get_type_def get_writable_def get_status_def
  getBody_def setContentType_def toServerResponse_def type_or_def BODY_TYPES_def isReader_def
  Headers_has_def Headers_append_def Headers_get_def Headers_set_def
  normalize_value_def http_whitespace_def is_header_value_def
  toLowerCase_def toLowerCase_char_def Status_OK_def Status_NotFound_def Status_Found_def
  redirect_def redirect_target_def encodeURI_def uri_unescaped_def Let_def

lemmas example_defs = example_env_def example_contentType_def example_isHtml_def
  example_JSON_stringify_def json_quote_def json_char_def

lemma example_world_reachable: "reachable example_env example_world"
  unfolding example_world_def
  by (rule reachable.constructed) (simp add: example_request_def)

lemma example_world_finalize:
  "toServerResponse example_env example_world =
     (Inr \<lparr> sr_status = 404, sr_body = JUndefined, sr_headers = 0 \<rparr>, finalized_world)"
  by (simp add: finalized_world_def prod_eq_iff example_world_def model_defs)

lemma finalized_world_reachable: "reachable example_env finalized_world"
  using reachable.called [OF example_world_reachable, of ToServerResponse]
  by (simp add: finalized_world_def)

lemma moved_world_reachable: "reachable example_env moved_world"
  unfolding moved_world_def
  by (rule reachable_perform_all) (rule example_world_reachable)

lemma function_body_world_reachable: "reachable example_env function_body_world"
  unfolding function_body_world_def
  by (rule reachable.called) (rule example_world_reachable)

lemma hello_world_reachable: "reachable example_env hello_world"
  unfolding hello_world_def
  by (rule reachable.called) (rule example_world_reachable)

lemma illegal_type_world_reachable: "reachable example_env illegal_type_world"
  unfolding illegal_type_world_def
  by (rule reachable.called) (rule hello_world_reachable)

lemma json_type_world_reachable: "reachable example_env json_type_world"
  unfolding json_type_world_def
  by (rule reachable.called) (rule example_world_reachable)

lemma book_world_reachable: "reachable example_env book_world"
  unfolding book_world_def
  by (rule reachable.called) (rule example_world_reachable)

subsection \<open>The payload of a first call\<close>

lemma toServerResponse_outcome:
  assumes "priv_serverResponse (resp w) = None" and "getBody env w = (Inr b, w1)"
  shows "map_sum id sr_body (fst (toServerResponse env w)) =
           map_sum id (\<lambda>u. b) (fst (setContentType env w1))"
    and "map_sum id sr_status (fst (toServerResponse env w)) =
           map_sum id (\<lambda>u. case priv_status (resp w) of
                               Some s \<Rightarrow> s
                             | None \<Rightarrow> if truthy b then Status_OK else Status_NotFound)
             (fst (setContentType env w1))"
    and "map_sum id sr_headers (fst (toServerResponse env w)) =
           map_sum id (\<lambda>u. get_headers w) (fst (setContentType env w1))"
    and "get_type (snd (toServerResponse env w)) = get_type w1"
proof -
  obtain r2 w2 where s: "setContentType env w1 = (r2, w2)" by (cases "setContentType env w1")
  have t: "get_type w2 = get_type w1"
    using setContentType_resp [of env w1] s by (simp add: get_type_def)
  show "map_sum id sr_body (fst (toServerResponse env w)) =
           map_sum id (\<lambda>u. b) (fst (setContentType env w1))"
    using s assms
    by (cases r2) (simp_all add: toServerResponse_first_throws toServerResponse_first Let_def)
  show "map_sum id sr_status (fst (toServerResponse env w)) =
           map_sum id (\<lambda>u. case priv_status (resp w) of
                               Some s \<Rightarrow> s
                             | None \<Rightarrow> if truthy b then Status_OK else Status_NotFound)
             (fst (setContentType env w1))"
    using s assms
    by (cases r2) (simp_all add: toServerResponse_first_throws toServerResponse_first Let_def)
  show "map_sum id sr_headers (fst (toServerResponse env w)) =
           map_sum id (\<lambda>u. get_headers w) (fst (setContentType env w1))"
    using s assms
    by (cases r2) (simp_all add: toServerResponse_first_throws toServerResponse_first Let_def)
  show "get_type (snd (toServerResponse env w)) = get_type w1"
    using s assms t
    by (cases r2)
       (simp_all add: toServerResponse_first_throws toServerResponse_first Let_def get_type_def)
qed

section \<open>The claims\<close>

subsection \<open>C1: the status read before any status is set\<close>

text \<open>
  Claim C1 says that, with no status set, the getter \<open>status\<close> returns OK for a body
  that is a primitive value or a non-null structured value and Not Found otherwise, so
  that it returns OK exactly when the body is neither undefined nor null. The getter
  tests the truthiness of the body. On a new response whose body has been set to the
  empty string it returns Not Found (404), while \<open>toServerResponse\<close> in the same world
  sends the status OK (200): it does so whenever \<open>setContentType\<close> returns, the one
  step that can throw there, and with the functions of the examples it returns.
\<close>

theorem status_of_empty_string_body:
  "get_status (snd (set_body (JString '''') (new_Response request h hp))) = Status_NotFound \<and>
   map_sum id sr_status
     (fst (toServerResponse env (snd (set_body (JString '''') (new_Response request h hp)))))
     = map_sum id (\<lambda>u. Status_OK)
         (fst (setContentType env
            (snd (getBody env (snd (set_body (JString '''') (new_Response request h hp))))))) \<and>
   map_sum id sr_status
     (fst (toServerResponse example_env
        (snd (set_body (JString '''') (new_Response example_request 0 (\<lambda>a. []))))))
     = Inr Status_OK"
proof -
  define w where "w = snd (set_body (JString '''') (new_Response request h hp))"
  have n: "priv_serverResponse (resp w) = None" and s: "priv_status (resp w) = None"
    and wr: "priv_writable (resp w)" and b: "get_body w = JString ''''"
    by (simp_all add: w_def new_Response_def set_body_def get_body_def)
  have g: "getBody env w = (Inr (JUint8Array (encode env (js_String env (JString '''')))),
                           snd (getBody env w))"
    using getBody_primitive [OF wr, of env] b by (simp add: BODY_TYPES_def)
  have "get_status w = Status_NotFound"
    using get_status_unset [OF s] b by simp
  moreover have "map_sum id sr_status (fst (toServerResponse env w)) =
      map_sum id (\<lambda>u. Status_OK) (fst (setContentType env (snd (getBody env w))))"
    using toServerResponse_outcome(2) [OF n g] s by simp
  moreover have "map_sum id sr_status
     (fst (toServerResponse example_env
        (snd (set_body (JString '''') (new_Response example_request 0 (\<lambda>a. []))))))
     = Inr Status_OK"
    by (simp add: model_defs example_defs)
  ultimately show ?thesis
    by (simp add: w_def)
qed

subsection \<open>C2: no write after toServerResponse\<close>

text \<open>
  Claim C2: once \<open>toServerResponse\<close> has returned a payload, then after any further
  calls \<open>cs\<close> the property \<open>writable\<close> reads false and an assignment to \<open>body\<close>,
  \<open>headers\<close>, \<open>status\<close> or \<open>type\<close> throws the error "The response is not writable."
  and changes nothing.
\<close>

theorem finalized_rejects_writes:
  assumes "reachable env w" and "toServerResponse env w = (Inr sr, w')"
  shows "\<not> get_writable (perform_all env cs w') \<and>
         set_body b (perform_all env cs w') = (Inl NotWritable, perform_all env cs w') \<and>
         set_headers a (perform_all env cs w') = (Inl NotWritable, perform_all env cs w') \<and>
         set_status s (perform_all env cs w') = (Inl NotWritable, perform_all env cs w') \<and>
         set_type t (perform_all env cs w') = (Inl NotWritable, perform_all env cs w')"
proof -
  have "reachable env w'"
    using reachable.called [OF assms(1), of ToServerResponse] assms(2) by simp
  then have r: "reachable env (perform_all env cs w')"
    by (rule reachable_perform_all)
  have "priv_serverResponse (resp w') = Some sr"
    using assms(2) by (rule toServerResponse_stores)
  then have "priv_serverResponse (resp (perform_all env cs w')) = Some sr"
    by (rule perform_all_keeps_serverResponse)
  with r have "\<not> priv_writable (resp (perform_all env cs w'))"
    by (rule reachable_finalized)
  then show ?thesis
    by (simp add: setter_defs get_writable_def)
qed

text \<open>
  Witness for C2: a new response is finalized, \<open>redirect\<close> is called on it, and each of
  the four assignments then throws.
\<close>

theorem finalized_rejects_writes_witness:
  "reachable example_env example_world \<and>
   toServerResponse example_env example_world =
     (Inr \<lparr> sr_status = 404, sr_body = JUndefined, sr_headers = 0 \<rparr>, finalized_world) \<and>
   \<not> get_writable (perform_all example_env [Redirect REDIRECT_BACK None] finalized_world) \<and>
   set_body (JString ''late'')
       (perform_all example_env [Redirect REDIRECT_BACK None] finalized_world) =
     (Inl NotWritable, perform_all example_env [Redirect REDIRECT_BACK None] finalized_world) \<and>
   set_headers 1 (perform_all example_env [Redirect REDIRECT_BACK None] finalized_world) =
     (Inl NotWritable, perform_all example_env [Redirect REDIRECT_BACK None] finalized_world) \<and>
   set_status 500 (perform_all example_env [Redirect REDIRECT_BACK None] finalized_world) =
     (Inl NotWritable, perform_all example_env [Redirect REDIRECT_BACK None] finalized_world) \<and>
   set_type (Some ''json'')
       (perform_all example_env [Redirect REDIRECT_BACK None] finalized_world) =
     (Inl NotWritable, perform_all example_env [Redirect REDIRECT_BACK None] finalized_world)"
  using finalized_rejects_writes [OF example_world_reachable example_world_finalize,
      of "[Redirect REDIRECT_BACK None]" "JString ''late''" 1 500 "Some ''json''"]
    example_world_reachable example_world_finalize
  by simp

subsection \<open>C3: toServerResponse is memoized\<close>

text \<open>
  Claim C3: after a call of \<open>toServerResponse\<close> that returned the payload \<open>sr\<close>, and
  after any further calls \<open>cs\<close>, \<open>toServerResponse\<close> returns the same \<open>sr\<close> and leaves
  the world as it is (no body is resolved, no header added, no status computed), and the
  stored payload is still \<open>sr\<close>: it is set once.
\<close>

theorem toServerResponse_memoized:
  assumes "toServerResponse env w = (Inr sr, w')"
  shows "toServerResponse env (perform_all env cs w') = (Inr sr, perform_all env cs w') \<and>
         priv_serverResponse (resp (perform_all env cs w')) = Some sr"
proof -
  have "priv_serverResponse (resp w') = Some sr"
    using assms by (rule toServerResponse_stores)
  then have "priv_serverResponse (resp (perform_all env cs w')) = Some sr"
    by (rule perform_all_keeps_serverResponse)
  then show ?thesis
    by (simp add: toServerResponse_memo)
qed

text \<open>
  Witness for C3: a new response is finalized; after an assignment to \<open>body\<close> and a
  second \<open>toServerResponse\<close>, a third call returns the payload of the first.
\<close>

theorem toServerResponse_memoized_witness:
  "toServerResponse example_env example_world =
     (Inr \<lparr> sr_status = 404, sr_body = JUndefined, sr_headers = 0 \<rparr>, finalized_world) \<and>
   toServerResponse example_env
       (perform_all example_env [Set_body JNull, ToServerResponse] finalized_world) =
     (Inr \<lparr> sr_status = 404, sr_body = JUndefined, sr_headers = 0 \<rparr>,
      perform_all example_env [Set_body JNull, ToServerResponse] finalized_world) \<and>
   priv_serverResponse
       (resp (perform_all example_env [Set_body JNull, ToServerResponse] finalized_world)) =
     Some \<lparr> sr_status = 404, sr_body = JUndefined, sr_headers = 0 \<rparr>"
  using toServerResponse_memoized [OF example_world_finalize,
      of "[Set_body JNull, ToServerResponse]"] example_world_finalize
  by simp

subsection \<open>C4: a body that cannot be converted\<close>

text \<open>
  Claim C4: when the body is truthy and neither of a primitive type, nor a byte array,
  nor a reader, nor of type object, \<open>toServerResponse\<close> throws the conversion error
  and leaves the world as it was: no payload is stored and the response is writable.
\<close>

theorem unconvertible_body_fails:
  assumes "reachable env w" and "unconvertible (get_body w)"
  shows "toServerResponse env w = (Inl CouldNotConvert, w) \<and>
         priv_serverResponse (resp w) = None \<and> get_writable w"
proof -
  have u: "unconvertible (priv_body (resp w))"
    using assms(2) by (simp add: get_body_def)
  have n: "priv_serverResponse (resp w) = None"
  proof (cases "priv_serverResponse (resp w)")
    case None
    then show ?thesis .
  next
    case (Some sr)
    with assms(1) have "\<not> unconvertible (priv_body (resp w))"
      by (rule reachable_finalized)
    with u show ?thesis by simp
  qed
  with reachable_inv [OF assms(1)] have "priv_writable (resp w)"
    by (simp add: response_inv_def)
  with n u show ?thesis
    by (simp add: toServerResponse_def getBody_unconvertible get_writable_def)
qed

text \<open>Witness for C4: the body is a function.\<close>

theorem unconvertible_body_fails_witness:
  "reachable example_env function_body_world \<and>
   unconvertible (get_body function_body_world) \<and>
   toServerResponse example_env function_body_world = (Inl CouldNotConvert, function_body_world) \<and>
   priv_serverResponse (resp function_body_world) = None \<and>
   get_writable function_body_world"
proof -
  have u: "unconvertible (get_body function_body_world)"
    by (simp add: function_body_world_def example_world_def unconvertible_def model_defs)
  show ?thesis
    using unconvertible_body_fails [OF function_body_world_reachable u]
      function_body_world_reachable u
    by simp
qed

subsection \<open>C5: a body of a primitive type\<close>

text \<open>
  Claim C5: for a writable response whose body has one of the types \<open>string\<close>,
  \<open>number\<close>, \<open>bigint\<close>, \<open>boolean\<close>, \<open>symbol\<close>, \<open>getBody\<close> makes a string of the body and
  encodes it to bytes, and a type that is unset becomes \<open>"html"\<close> when \<open>isHtml\<close> holds
  of that string and \<open>"text/plain"\<close> otherwise. The test of the type of the body comes
  first in \<open>getBody\<close>: its result is that of the first branch whatever else holds of the
  body. \<open>toServerResponse\<close> leaves the type so set, and goes on to \<open>setContentType\<close>:
  when that returns, the payload is returned with those bytes as its body, and when
  that throws (\<open>Headers.append\<close> refusing the content type), \<open>toServerResponse\<close>
  throws the same error.
\<close>

theorem primitive_body_conversion:
  assumes "reachable env w" and "get_writable w"
    and "typeof (get_body w) \<in> set BODY_TYPES"
  shows "getBody env w =
           (Inr (JUint8Array (encode env (js_String env (get_body w)))),
            snd (set_type (type_or (get_type w)
                   (if isHtml env (js_String env (get_body w)) then ''html''
                    else ''text/plain'')) w)) \<and>
         get_type (snd (toServerResponse env w)) =
           (if truthy_string (get_type w) then get_type w
            else Some (if isHtml env (js_String env (get_body w)) then ''html''
                       else ''text/plain'')) \<and>
         map_sum id sr_body (fst (toServerResponse env w)) =
           map_sum id (\<lambda>u. JUint8Array (encode env (js_String env (get_body w))))
             (fst (setContentType env (snd (getBody env w))))"
proof -
  have wr: "priv_writable (resp w)"
    using assms(2) by (simp add: get_writable_def)
  with assms(1) have n: "priv_serverResponse (resp w) = None"
    by (rule reachable_writable)
  note g = getBody_primitive [OF wr assms(3), of env]
  show ?thesis
    using wr toServerResponse_outcome(1,4) [OF n g]
    by (simp add: g set_type_def get_type_def type_or_def)
qed

text \<open>
  Witness for C5: the body \<open>"Hello world!"\<close> of \<open>examples/app.ts\<close>, with no type set,
  is sent as the bytes of that string, and the type becomes \<open>"text/plain"\<close>. With the
  type set to \<open>a/b; charset=x\<close>, a line feed and \<open>y\<close>, \<open>Headers.append\<close> refuses the
  content type and \<open>toServerResponse\<close> throws.
\<close>

theorem primitive_body_conversion_witness:
  "reachable example_env hello_world \<and> get_writable hello_world \<and>
   typeof (get_body hello_world) \<in> set BODY_TYPES \<and>
   get_type (snd (toServerResponse example_env hello_world)) = Some ''text/plain'' \<and>
   map_sum id sr_body (fst (toServerResponse example_env hello_world)) =
     Inr (JUint8Array [72, 101, 108, 108, 111, 32, 119, 111, 114, 108, 100, 33]) \<and>
   fst (toServerResponse example_env illegal_type_world) = Inl HeadersTypeError \<and>
   get_writable (snd (toServerResponse example_env illegal_type_world))"
proof -
  have w: "get_writable hello_world"
    by (simp add: hello_world_def example_world_def model_defs)
  have b: "get_body hello_world = JString ''Hello world!''"
    by (simp add: hello_world_def example_world_def model_defs)
  have t: "typeof (get_body hello_world) \<in> set BODY_TYPES"
    by (simp add: b BODY_TYPES_def)
  have s: "js_String example_env (JString ''Hello world!'') = ''Hello world!''"
    by (simp add: example_env_def)
  have h: "\<not> isHtml example_env ''Hello world!''"
    by (simp add: example_defs toLowerCase_def toLowerCase_char_def)
  have n: "get_type hello_world = None"
    by (simp add: hello_world_def example_world_def model_defs)
  have e: "encode example_env ''Hello world!'' =
      [72, 101, 108, 108, 111, 32, 119, 111, 114, 108, 100, 33]"
    by (simp add: example_env_def)
  have c: "fst (setContentType example_env (snd (getBody example_env hello_world))) = Inr ()"
    by (simp add: hello_world_def example_world_def model_defs example_defs)
  have i: "fst (toServerResponse example_env illegal_type_world) = Inl HeadersTypeError"
    "get_writable (snd (toServerResponse example_env illegal_type_world))"
    by (simp_all add: illegal_type_world_def hello_world_def example_world_def model_defs
        example_defs)
  show ?thesis
    using primitive_body_conversion [OF hello_world_reachable w t] hello_world_reachable w t i
    by (simp add: b s h n e c)
qed

subsection \<open>C6: a structured body\<close>

text \<open>
  Claim C6 says that a truthy body of type object that is neither a byte array nor a
  reader is sent as the bytes of its JSON text, and that the type becomes \<open>"json"\<close> if
  and only if no type was set, a type set before being kept. Two inputs refute it.
  \<open>getBody\<close> assigns \<open>this.type || "json"\<close>, and the empty string is falsy: with the type
  set to the empty string and a book object as the body, the type reads \<open>"json"\<close> after
  the conversion. And \<open>JSON.stringify\<close> throws on a body that holds a BigInt: with the
  body \<open>{a: 1n}\<close> the conversion throws, and nothing is serialized and no type set.
\<close>

theorem explicit_empty_type_counterexample:
  "get_type empty_type_world = Some '''' \<and>
   truthy (get_body empty_type_world) \<and> typeof (get_body empty_type_world) = ''object'' \<and>
   \<not> instanceof_Uint8Array (get_body empty_type_world) \<and>
   isReader (get_body empty_type_world) = Inr False \<and>
   get_type (snd (toServerResponse example_env empty_type_world)) = Some ''json'' \<and>
   truthy (get_body bigint_world) \<and> typeof (get_body bigint_world) = ''object'' \<and>
   \<not> instanceof_Uint8Array (get_body bigint_world) \<and>
   isReader (get_body bigint_world) = Inr False \<and>
   fst (toServerResponse example_env bigint_world) = Inl JSONTypeError \<and>
   get_type (snd (toServerResponse example_env bigint_world)) = None"
  by (simp add: empty_type_world_def book_world_def bigint_world_def example_world_def
      model_defs example_defs)

text \<open>
  Claim C6 as amended: for a writable response with such a body, when \<open>JSON.stringify\<close>
  throws on the body, \<open>toServerResponse\<close> throws the same error and changes nothing.
  When it returns, the type after the conversion is the type before it when that is a
  non-empty string, and \<open>"json"\<close> when it is unset or the empty string, and the body
  resolved is the bytes of what \<open>JSON.stringify\<close> returned: the payload is returned with
  them as its body when \<open>setContentType\<close> returns, and \<open>toServerResponse\<close> throws the
  error of \<open>setContentType\<close> when that throws.
\<close>

theorem structured_body_conversion:
  assumes "reachable env w" and "get_writable w"
    and "truthy (get_body w)" and "typeof (get_body w) = ''object''"
    and "\<not> instanceof_Uint8Array (get_body w)" and "isReader (get_body w) = Inr False"
  shows "(case JSON_stringify env (get_body w) of
            Inl e \<Rightarrow> toServerResponse env w = (Inl e, w)
          | Inr text \<Rightarrow>
              get_type (snd (toServerResponse env w)) =
                (case get_type w of
                   None \<Rightarrow> Some ''json''
                 | Some t \<Rightarrow> if t = [] then Some ''json'' else Some t) \<and>
              map_sum id sr_body (fst (toServerResponse env w)) =
                map_sum id (\<lambda>u. JUint8Array (encode env (encode_input text)))
                  (fst (setContentType env (snd (getBody env w)))))"
proof -
  have wr: "priv_writable (resp w)"
    using assms(2) by (simp add: get_writable_def)
  with assms(1) have n: "priv_serverResponse (resp w) = None"
    by (rule reachable_writable)
  note g = getBody_structured [OF wr assms(3-6), of env]
  show ?thesis
  proof (cases "JSON_stringify env (get_body w)")
    case (Inl e)
    with g n show ?thesis
      by (simp add: toServerResponse_def)
  next
    case (Inr json)
    with g have g': "getBody env w =
        (Inr (JUint8Array (encode env (encode_input json))),
         w\<lparr>resp := (resp w)\<lparr>priv_type := type_or (get_type w) ''json''\<rparr>\<rparr>)"
      by simp
    show ?thesis
      using toServerResponse_outcome(1,4) [OF n g'] Inr
      by (simp add: g' get_type_def type_or_def split: option.splits)
  qed
qed

text \<open>
  Witness for the amended C6: a book object as the body, no type set; the payload has
  the bytes of the JSON text of the book, and the type becomes \<open>"json"\<close>.
\<close>

theorem structured_body_conversion_witness:
  "reachable example_env book_world \<and> get_writable book_world \<and>
   truthy (get_body book_world) \<and> typeof (get_body book_world) = ''object'' \<and>
   \<not> instanceof_Uint8Array (get_body book_world) \<and>
   isReader (get_body book_world) = Inr False \<and>
   JSON_stringify example_env (get_body book_world) =
     Inr (Some (''{'' @ [CHR 0x22] @ ''id'' @ [CHR 0x22] @ '':'' @ [CHR 0x22] @ ''1'' @
                [CHR 0x22] @ '','' @ [CHR 0x22] @ ''author'' @ [CHR 0x22] @ '':'' @
                [CHR 0x22] @ ''Chinese'' @ [CHR 0x22] @ ''}'')) \<and>
   get_type (snd (toServerResponse example_env book_world)) = Some ''json'' \<and>
   map_sum id sr_body (fst (toServerResponse example_env book_world)) =
     Inr (JUint8Array (encode example_env
            (''{'' @ [CHR 0x22] @ ''id'' @ [CHR 0x22] @ '':'' @ [CHR 0x22] @ ''1'' @
             [CHR 0x22] @ '','' @ [CHR 0x22] @ ''author'' @ [CHR 0x22] @ '':'' @
             [CHR 0x22] @ ''Chinese'' @ [CHR 0x22] @ ''}'')))"
proof -
  have w: "get_writable book_world"
    by (simp add: book_world_def example_world_def model_defs)
  have b: "get_body book_world = JObject [(''id'', JString ''1''), (''author'', JString ''Chinese'')]"
    by (simp add: book_world_def example_world_def model_defs)
  have c: "truthy (get_body book_world)" "typeof (get_body book_world) = ''object''"
    "\<not> instanceof_Uint8Array (get_body book_world)" "isReader (get_body book_world) = Inr False"
    by (simp_all add: b isReader_def)
  have n: "get_type book_world = None"
    by (simp add: book_world_def example_world_def model_defs)
  have j: "JSON_stringify example_env (get_body book_world) =
     Inr (Some (''{'' @ [CHR 0x22] @ ''id'' @ [CHR 0x22] @ '':'' @ [CHR 0x22] @ ''1'' @
                [CHR 0x22] @ '','' @ [CHR 0x22] @ ''author'' @ [CHR 0x22] @ '':'' @
                [CHR 0x22] @ ''Chinese'' @ [CHR 0x22] @ ''}''))"
    by (simp add: b example_defs)
  have s: "fst (setContentType example_env (snd (getBody example_env book_world))) = Inr ()"
    by (simp add: book_world_def example_world_def model_defs example_defs)
  show ?thesis
    using structured_body_conversion [OF book_world_reachable w c] book_world_reachable w c j
    by (simp add: n s)
qed

subsection \<open>C7: Content-Length: 0 for an empty response\<close>

text \<open>
  Claim C7: let \<open>getBody\<close> resolve the body of a writable response to \<open>b\<close>. When
  \<open>setContentType\<close> throws, \<open>toServerResponse\<close> throws the same error: there is no
  payload, and nothing is appended. When it returns, the payload is returned and its
  headers are the headers object of the response. When \<open>b\<close> is undefined and that
  object, as it stands when \<open>toServerResponse\<close> tests it (after \<open>setContentType\<close> has
  added the content type of a set type), has neither a \<open>Content-Type\<close> nor a
  \<open>Content-Length\<close> entry, the conversion appends the entry \<open>Content-Length: 0\<close>; when \<open>b\<close>
  is present or one of the two entries exists, it appends nothing. With \<open>b\<close> undefined
  and no type set, \<open>setContentType\<close> returns and the object then stands as it stood
  before the call.
\<close>

theorem empty_body_content_length:
  assumes "reachable env w" and "get_writable w" and "getBody env w = (Inr b, w1)"
  shows "(case fst (setContentType env w1) of
            Inl e \<Rightarrow> toServerResponse env w = (Inl e, w1)
          | Inr u \<Rightarrow>
              map_sum id sr_headers (fst (toServerResponse env w)) = Inr (get_headers w) \<and>
              heap (snd (toServerResponse env w)) (get_headers w) =
                (let synthesized = heap (snd (setContentType env w1)) (get_headers w) in
                 if b = JUndefined \<and> \<not> Headers_has synthesized ''Content-Type'' \<and>
                    \<not> Headers_has synthesized ''Content-Length''
                 then synthesized @ [(''content-length'', ''0'')]
                 else synthesized)) \<and>
         (b = JUndefined \<and> \<not> truthy_string (get_type w) \<longrightarrow>
            fst (setContentType env w1) = Inr () \<and>
            heap (snd (setContentType env w1)) (get_headers w) = heap w (get_headers w))"
proof -
  have wr: "priv_writable (resp w)"
    using assms(2) by (simp add: get_writable_def)
  with assms(1) have n: "priv_serverResponse (resp w) = None"
    by (rule reachable_writable)
  have u: "b = JUndefined \<Longrightarrow> \<not> truthy_string (get_type w) \<Longrightarrow>
      setContentType env w1 = (Inr (), w)"
    using getBody_absent(1) [of env w w1] assms(3) by (simp add: setContentType_unset)
  have c: "case fst (setContentType env w1) of
            Inl e \<Rightarrow> toServerResponse env w = (Inl e, w1)
          | Inr u \<Rightarrow>
              map_sum id sr_headers (fst (toServerResponse env w)) = Inr (get_headers w) \<and>
              heap (snd (toServerResponse env w)) (get_headers w) =
                (let synthesized = heap (snd (setContentType env w1)) (get_headers w) in
                 if b = JUndefined \<and> \<not> Headers_has synthesized ''Content-Type'' \<and>
                    \<not> Headers_has synthesized ''Content-Length''
                 then synthesized @ [(''content-length'', ''0'')]
                 else synthesized)"
  proof (cases "fst (setContentType env w1)")
    case (Inl e)
    then show ?thesis
      using toServerResponse_first_throws [OF n assms(3)] by simp
  next
    case (Inr v)
    then have s: "setContentType env w1 = (Inr v, snd (setContentType env w1))"
      by (simp add: prod_eq_iff)
    show ?thesis
      using Inr getBody_result [OF assms(3)]
      by (simp add: toServerResponse_first [OF n assms(3) s] Let_def)
  qed
  show ?thesis
    using c u by simp
qed

text \<open>
  Witness for C7: a new response, with no body, no type and no header, is sent with the
  one header \<open>Content-Length: 0\<close>; with the type \<open>json\<close> set and no body, it is sent
  with the content type of that type as its one header.
\<close>

theorem empty_body_content_length_witness:
  "reachable example_env example_world \<and> get_writable example_world \<and>
   getBody example_env example_world = (Inr JUndefined, example_world) \<and>
   map_sum id sr_headers (fst (toServerResponse example_env example_world)) = Inr 0 \<and>
   heap (snd (toServerResponse example_env example_world)) 0 = [(''content-length'', ''0'')] \<and>
   heap (snd (toServerResponse example_env json_type_world)) 0 =
     [(''content-type'', ''application/json; charset=utf-8'')]"
proof -
  have w: "get_writable example_world"
    by (simp add: example_world_def model_defs)
  have g: "getBody example_env example_world = (Inr JUndefined, example_world)"
    by (simp add: example_world_def model_defs)
  have h: "get_headers example_world = 0"
    by (simp add: example_world_def model_defs)
  have s: "setContentType example_env example_world = (Inr (), example_world)"
    by (simp add: example_world_def model_defs)
  have e: "heap example_world 0 = []"
    by (simp add: example_world_def model_defs)
  have j: "heap (snd (toServerResponse example_env json_type_world)) 0 =
     [(''content-type'', ''application/json; charset=utf-8'')]"
    by (simp add: json_type_world_def example_world_def model_defs example_defs)
  show ?thesis
    using empty_body_content_length [OF example_world_reachable w g] example_world_reachable w g j
    by (simp add: h s e Headers_has_def)
qed

subsection \<open>C8: redirect back with no referrer and no alternative\<close>

text \<open>
  Claim C8: on a writable response whose request has no \<open>Referrer\<close> header,
  \<open>redirect(REDIRECT_BACK)\<close> returns, the \<open>Location\<close> header of the response is then
  \<open>encodeUrl("/")\<close>, and the status becomes Found (302) when it was unset or is not a
  redirect status, and stays what it was otherwise. The status that \<open>redirect\<close> tests is
  the one the getter returns, OK or Not Found when none is set: that
  \<open>isRedirectStatus\<close> holds of neither is assumed of that function.
\<close>

theorem redirect_back_default:
  assumes "get_writable w"
    and "Headers_get (heap w (req_headers (priv_request (resp w)))) ''Referrer'' = None"
    and "\<not> isRedirectStatus env Status_OK" and "\<not> isRedirectStatus env Status_NotFound"
  shows "fst (redirect env REDIRECT_BACK None w) = Inr () \<and>
         Headers_get (heap (snd (redirect env REDIRECT_BACK None w)) (get_headers w)) ''Location''
           = Some (encodeUrl env ''/'') \<and>
         get_headers (snd (redirect env REDIRECT_BACK None w)) = get_headers w \<and>
         priv_status (resp (snd (redirect env REDIRECT_BACK None w))) =
           (if \<not> truthy_status (priv_status (resp w)) \<or> \<not> isRedirectStatus env (get_status w)
            then Some Status_Found else priv_status (resp w))"
proof -
  have wr: "priv_writable (resp w)"
    using assms(1) by (simp add: get_writable_def)
  have t: "redirect_target REDIRECT_BACK None w = ''/''"
    using assms(2) by (simp add: redirect_target_def)
  have s: "\<not> truthy_status (priv_status (resp w)) \<Longrightarrow> \<not> isRedirectStatus env (get_status w)"
    using assms(3,4) by (cases "priv_status (resp w)") (simp_all add: get_status_def Let_def)
  show ?thesis
  proof (cases "accepts (priv_request (resp w)) ''html''")
    case True
    have e: "encodeURI (redirect_target REDIRECT_BACK None w) = Inr ''/''"
      by (simp add: t encodeURI_slash)
    show ?thesis
      using s
      by (auto simp: redirect_writable_html [OF wr True e] redirected_def t Headers_get_set
          get_headers_def get_status_nonzero)
  next
    case False
    show ?thesis
      using s
      by (auto simp: redirect_writable_plain [OF wr False] redirected_def t Headers_get_set
          get_headers_def get_status_nonzero)
  qed
qed

text \<open>
  Witness for C8: on a new response, whose request has no headers, the call sets
  \<open>Location\<close> to \<open>"/"\<close> and the status to 302.
\<close>

theorem redirect_back_default_witness:
  "get_writable example_world \<and>
   Headers_get (heap example_world (req_headers (priv_request (resp example_world))))
     ''Referrer'' = None \<and>
   \<not> isRedirectStatus example_env Status_OK \<and> \<not> isRedirectStatus example_env Status_NotFound \<and>
   fst (redirect example_env REDIRECT_BACK None example_world) = Inr () \<and>
   Headers_get (heap (snd (redirect example_env REDIRECT_BACK None example_world)) 0)
     ''Location'' = Some ''/'' \<and>
   priv_status (resp (snd (redirect example_env REDIRECT_BACK None example_world))) = Some 302"
proof -
  have w: "get_writable example_world"
    by (simp add: example_world_def model_defs)
  have r: "Headers_get (heap example_world (req_headers (priv_request (resp example_world))))
     ''Referrer'' = None"
    by (simp add: example_world_def example_request_def new_Response_def Headers_get_def)
  have i: "\<not> isRedirectStatus example_env Status_OK" "\<not> isRedirectStatus example_env Status_NotFound"
    by (simp_all add: example_env_def Status_OK_def Status_NotFound_def)
  have h: "get_headers example_world = 0"
    by (simp add: example_world_def model_defs)
  have s: "priv_status (resp example_world) = None"
    by (simp add: example_world_def model_defs)
  have e: "encodeUrl example_env ''/'' = ''/''"
    by (simp add: example_env_def uri_unescaped_def)
  show ?thesis
    using redirect_back_default [OF w r i] w r i
    by (simp add: h s e Status_Found_def)
qed

subsection \<open>C9: the body and the type that redirect sets\<close>

text \<open>
  Claim C9 says that on a writable response \<open>redirect\<close> sets the type and the body by
  what the request accepts. When the request accepts \<open>html\<close>, \<open>redirect\<close> first calls
  \<open>encodeURI\<close> on the target, which throws on a lone surrogate: on a new response whose
  request accepts \<open>html\<close>, a redirect to a string of one lone surrogate throws the
  \<open>URIError\<close>, and the type and the body are as unset as before.
\<close>

theorem redirect_lone_surrogate_counterexample:
  "get_writable example_world \<and>
   accepts (priv_request (resp example_world)) ''html'' \<and>
   fst (redirect example_env (Url (Url_string lone_surrogate)) None example_world) =
     Inl URIError \<and>
   get_type (snd (redirect example_env (Url (Url_string lone_surrogate)) None example_world)) =
     None \<and>
   get_body (snd (redirect example_env (Url (Url_string lone_surrogate)) None example_world)) =
     JUndefined"
  by (simp add: example_world_def example_request_def lone_surrogate_def model_defs)

text \<open>
  Claim C9 as amended: on a writable response, when the request accepts \<open>html\<close> and
  \<open>encodeURI\<close> returns on the target, \<open>redirect\<close> returns, the type is then
  \<open>"text/html; charset=utf-8"\<close> and the body the anchor message around what \<open>encodeURI\<close>
  returned; when the request accepts \<open>html\<close> and \<open>encodeURI\<close> throws (the target has a
  lone surrogate), \<open>redirect\<close> throws the \<open>URIError\<close> and leaves the type and the body
  as they were; when the request does not accept \<open>html\<close>, \<open>redirect\<close> returns, the
  type is \<open>"text/plain; charset=utf-8"\<close> and the body the plain message with the target.
\<close>

theorem redirect_negotiates_body:
  assumes "get_writable w"
  shows "(if accepts (priv_request (resp w)) ''html''
          then (case encodeURI (redirect_target url alt_arg w) of
                  Inl e \<Rightarrow>
                    fst (redirect env url alt_arg w) = Inl URIError \<and>
                    get_type (snd (redirect env url alt_arg w)) = get_type w \<and>
                    get_body (snd (redirect env url alt_arg w)) = get_body w
                | Inr url2 \<Rightarrow>
                    fst (redirect env url alt_arg w) = Inr () \<and>
                    get_type (snd (redirect env url alt_arg w)) =
                      Some ''text/html; charset=utf-8'' \<and>
                    get_body (snd (redirect env url alt_arg w)) =
                      JString (''Redirecting to <a href='' @ [CHR 0x22] @ url2 @ [CHR 0x22] @
                               ''>'' @ url2 @ ''</a>.''))
          else fst (redirect env url alt_arg w) = Inr () \<and>
               get_type (snd (redirect env url alt_arg w)) =
                 Some ''text/plain; charset=utf-8'' \<and>
               get_body (snd (redirect env url alt_arg w)) =
                 JString (''Redirecting to '' @ redirect_target url alt_arg w @ ''.''))"
proof -
  have wr: "priv_writable (resp w)"
    using assms by (simp add: get_writable_def)
  show ?thesis
  proof (cases "accepts (priv_request (resp w)) ''html''")
    case False
    then show ?thesis
      by (simp add: redirect_writable_plain [OF wr False] get_type_def get_body_def)
  next
    case True
    show ?thesis
    proof (cases "encodeURI (redirect_target url alt_arg w)")
      case (Inl e)
      then have "e = URIError"
        by (simp add: encodeURI_error)
      with True Inl show ?thesis
        by (simp add: redirect_writable_throws [OF wr True Inl] redirected_def get_type_def
            get_body_def)
    next
      case (Inr url2)
      with True show ?thesis
        by (simp add: redirect_writable_html [OF wr True Inr] get_type_def get_body_def)
    qed
  qed
qed

text \<open>
  Witness for the amended C9: the request of the examples accepts \<open>html\<close>; a redirect
  to \<open>/book\<close> sets the html type and the anchor message.
\<close>

theorem redirect_negotiates_body_witness:
  "get_writable example_world \<and>
   accepts (priv_request (resp example_world)) ''html'' \<and>
   encodeURI (redirect_target (Url (Url_string ''/book'')) None example_world) = Inr ''/book'' \<and>
   fst (redirect example_env (Url (Url_string ''/book'')) None example_world) = Inr () \<and>
   get_type (snd (redirect example_env (Url (Url_string ''/book'')) None example_world)) =
     Some ''text/html; charset=utf-8'' \<and>
   get_body (snd (redirect example_env (Url (Url_string ''/book'')) None example_world)) =
     JString (''Redirecting to <a href='' @ [CHR 0x22] @ ''/book'' @ [CHR 0x22] @ ''>/book</a>.'')"
proof -
  have w: "get_writable example_world"
    by (simp add: example_world_def model_defs)
  have a: "accepts (priv_request (resp example_world)) ''html''"
    by (simp add: example_world_def example_request_def new_Response_def)
  have e: "encodeURI (redirect_target (Url (Url_string ''/book'')) None example_world) =
      Inr ''/book''"
    by (simp add: redirect_target_def encodeURI_def uri_unescaped_def)
  show ?thesis
    using redirect_negotiates_body [OF w, where url = "Url (Url_string ''/book'')"
        and alt_arg = None and env = example_env] w a e
    by simp
qed

subsection \<open>C10: redirect on a finalized response\<close>

text \<open>
  Claim C10 says that on a response that holds a payload \<open>redirect\<close> throws the error
  "The response is not writable." of the first guarded setter it reaches, after it has
  changed the \<open>Location\<close> header of the headers object that the payload shares. When
  the status is a redirect status, \<open>redirect\<close> skips the setter of the status, and when
  the request accepts \<open>html\<close> it calls \<open>encodeURI\<close> before the setter of the type: on a
  response finalized with the status 301, a redirect to a string of one lone surrogate
  throws the \<open>URIError\<close>.
\<close>

theorem redirect_moved_counterexample:
  "reachable example_env moved_world \<and>
   priv_serverResponse (resp moved_world) =
     Some \<lparr> sr_status = 301, sr_body = JUndefined, sr_headers = 0 \<rparr> \<and>
   fst (redirect example_env (Url (Url_string lone_surrogate)) None moved_world) = Inl URIError"
proof -
  have "priv_serverResponse (resp moved_world) =
     Some \<lparr> sr_status = 301, sr_body = JUndefined, sr_headers = 0 \<rparr>"
    and "fst (redirect example_env (Url (Url_string lone_surrogate)) None moved_world) =
     Inl URIError"
    by (simp_all add: moved_world_def example_world_def example_request_def lone_surrogate_def
        example_env_def model_defs)
  with moved_world_reachable show ?thesis
    by simp
qed

text \<open>
  Claim C10 as amended: on a response that holds a payload \<open>sr\<close>, \<open>redirect\<close> throws,
  and the world it leaves differs from the one it found in the headers object of the
  payload, whose \<open>Location\<close> is now \<open>encodeUrl\<close> of the target: \<open>redirect\<close> writes to the
  object the getter \<open>headers\<close> returns before it reaches a guarded setter. The error is
  "The response is not writable." of the first guarded setter reached, unless the
  status is a redirect status, the request accepts \<open>html\<close> and the target has a lone
  surrogate: then it is the \<open>URIError\<close> of \<open>encodeURI\<close>. The payload that
  \<open>toServerResponse\<close> returns afterwards is still \<open>sr\<close>, with that object as its headers.
\<close>

theorem redirect_after_finalize:
  assumes "reachable env w" and "priv_serverResponse (resp w) = Some sr"
  shows "redirect env url alt_arg w =
           (Inl (if isRedirectStatus env (get_status w) \<and>
                    accepts (priv_request (resp w)) ''html'' \<and>
                    has_lone_surrogate (redirect_target url alt_arg w)
                 then URIError else NotWritable),
            w\<lparr>heap := (heap w)(sr_headers sr :=
                  Headers_set (heap w (sr_headers sr)) ''Location''
                    (encodeUrl env (redirect_target url alt_arg w)))\<rparr>) \<and>
         Headers_get (heap (snd (redirect env url alt_arg w)) (sr_headers sr)) ''Location'' =
           Some (encodeUrl env (redirect_target url alt_arg w)) \<and>
         toServerResponse env (snd (redirect env url alt_arg w)) =
           (Inr sr, snd (redirect env url alt_arg w))"
proof -
  note f = reachable_finalized [OF assms]
  show ?thesis
    using assms(2)
    by (simp add: redirect_not_writable [OF f(1)] f(2) get_headers_def Headers_get_set
        toServerResponse_memo)
qed

text \<open>
  Witness for the amended C10: the payload of a new response has no \<open>Location\<close> header;
  the redirect to \<open>/book\<close> throws the error of the setter, and the headers object of the
  payload then has \<open>Location: /book\<close>.
\<close>

theorem redirect_after_finalize_witness:
  "reachable example_env finalized_world \<and>
   priv_serverResponse (resp finalized_world) =
     Some \<lparr> sr_status = 404, sr_body = JUndefined, sr_headers = 0 \<rparr> \<and>
   Headers_get (heap finalized_world 0) ''Location'' = None \<and>
   fst (redirect example_env (Url (Url_string ''/book'')) None finalized_world) = Inl NotWritable \<and>
   Headers_get (heap (snd (redirect example_env (Url (Url_string ''/book'')) None finalized_world)) 0)
     ''Location'' = Some ''/book''"
proof -
  have p: "priv_serverResponse (resp finalized_world) =
     Some \<lparr> sr_status = 404, sr_body = JUndefined, sr_headers = 0 \<rparr>"
    using example_world_finalize by (rule toServerResponse_stores)
  have l: "Headers_get (heap finalized_world 0) ''Location'' = None"
    by (simp add: finalized_world_def example_world_def model_defs)
  have t: "redirect_target (Url (Url_string ''/book'')) None finalized_world = ''/book''"
    by (simp add: redirect_target_def)
  have e: "encodeUrl example_env ''/book'' = ''/book''"
    by (simp add: example_env_def uri_unescaped_def)
  have s: "\<not> has_lone_surrogate ''/book''"
    by simp
  show ?thesis
    using redirect_after_finalize [OF finalized_world_reachable p,
        where url = "Url (Url_string ''/book'')" and alt_arg = None]
      finalized_world_reachable p l
    by (simp add: t e s Headers_get_set)
qed

end
